theory Spec2Isabelle
  imports Complex_Main
begin

section \<open>Timber frame designer: sizing tables and size selection\<close>

text \<open>
  The embedding follows \<^verbatim>\<open>src/timber_frame_designer.py\<close>.

  Numbers. The loads, spans and building dimensions of the program are Python floats.
  Python compares a float with an int exactly, so the comparisons of the size selector are
  the comparisons of \<^typ>\<open>real\<close> on every finite float; the table keys and the member sizes
  are Python ints and are \<^typ>\<open>int\<close> here. A member size is the two-element Python list
  \<^verbatim>\<open>[width, depth]\<close>, an \<^typ>\<open>int list\<close>; the specification writes it \<^verbatim>\<open>(width, depth)\<close>.
  The bent spacing, a quotient that the program stores, is rounded to binary64 as the
  float division rounds it. The other arithmetic of the structure calculator is taken
  exactly: the quotient \<^verbatim>\<open>length / 12\<close> is only truncated to an int, halving the width
  is exact in binary64, and the ridge height and the rafter length are stated as formulas.

  Dictionaries. A Python dict keeps insertion order and \<^verbatim>\<open>get_post_size\<close> iterates over
  \<^verbatim>\<open>items()\<close>, so the three tables are association lists in source order.
\<close>

type_synonym member_size = "int list"

definition post_sizes :: "((int \<times> int) \<times> member_size) list" where
  "post_sizes =
    [((0, 30), [6, 6]),
     ((30, 50), [8, 8]),
     ((50, 70), [10, 10]),
     ((70, 100), [12, 12])]"

definition beam_sizes :: "((int \<times> int) \<times> member_size) list" where
  "beam_sizes =
    [((16, 30), [6, 10]),
     ((16, 50), [6, 12]),
     ((16, 70), [8, 12]),
     ((16, 100), [8, 14]),
     ((24, 30), [8, 12]),
     ((24, 50), [8, 14]),
     ((24, 70), [10, 14]),
     ((24, 100), [10, 16]),
     ((32, 30), [8, 14]),
     ((32, 50), [10, 16]),
     ((32, 70), [12, 16]),
     ((32, 100), [12, 18]),
     ((40, 30), [10, 16]),
     ((40, 50), [12, 18]),
     ((40, 70), [12, 20]),
     ((40, 100), [14, 20])]"

definition rafter_sizes :: "((int \<times> int) \<times> member_size) list" where
  "rafter_sizes =
    [((16, 30), [4, 8]),
     ((16, 50), [6, 8]),
     ((16, 70), [6, 10]),
     ((16, 100), [6, 12]),
     ((24, 30), [6, 10]),
     ((24, 50), [6, 12]),
     ((24, 70), [8, 12]),
     ((24, 100), [8, 14])]"

subsection \<open>Python built-ins used by the selector\<close>

text \<open>
  \<^verbatim>\<open>min(xs, default=d)\<close>: the default for an empty list, the least element otherwise.
  With the \<^verbatim>\<open>default\<close> keyword the call has no raising branch.
\<close>

fun min_default :: "int list \<Rightarrow> int \<Rightarrow> int" where
  "min_default [] d = d"
| "min_default (x # xs) d = fold min xs x"

text \<open>\<^verbatim>\<open>d.get(key, default)\<close>: never raises; the default is the absent-key branch.\<close>

definition dict_get :: "('k \<times> 'v) list \<Rightarrow> 'k \<Rightarrow> 'v \<Rightarrow> 'v" where
  "dict_get d key dflt = (case map_of d key of Some v \<Rightarrow> v | None \<Rightarrow> dflt)"

subsection \<open>\<^verbatim>\<open>TimberFrameDesigner.get_post_size\<close>\<close>

text \<open>
  The \<^verbatim>\<open>for\<close> loop over the buckets, returning at the first bucket whose half-open range
  holds the load; the code after the loop is the case of the empty rest.
\<close>

fun post_scan :: "((int \<times> int) \<times> member_size) list \<Rightarrow> real \<Rightarrow> member_size" where
  "post_scan [] snow_load = [12, 12]"
| "post_scan (((min_load, max_load), sz) # rest) snow_load =
     (if of_int min_load \<le> snow_load \<and> snow_load < of_int max_load then sz
      else post_scan rest snow_load)"

definition get_post_size :: "real \<Rightarrow> member_size" where
  "get_post_size snow_load = post_scan post_sizes snow_load"

subsection \<open>\<^verbatim>\<open>get_beam_size\<close> and \<^verbatim>\<open>get_rafter_size\<close>\<close>

text \<open>
  Both methods compute two local variables, \<^verbatim>\<open>span_cat\<close> and \<^verbatim>\<open>load_cat\<close>, by the same
  expression \<^verbatim>\<open>min([c for c in categories if x <= c], default=d)\<close>, and look the pair up.
  The pair of locals is a function of its own here so that statements can speak of it.
\<close>

definition category :: "int list \<Rightarrow> int \<Rightarrow> real \<Rightarrow> int" where
  "category categories dflt x = min_default (filter (\<lambda>c. x \<le> of_int c) categories) dflt"

definition beam_categories :: "real \<Rightarrow> real \<Rightarrow> int \<times> int" where
  "beam_categories span_ft snow_load =
     (let span_categories = [16, 24, 32, 40];
          load_categories = [30, 50, 70, 100];
          span_cat = category span_categories 40 span_ft;
          load_cat = category load_categories 100 snow_load
      in (span_cat, load_cat))"

definition get_beam_size :: "real \<Rightarrow> real \<Rightarrow> member_size" where
  "get_beam_size span_ft snow_load =
     dict_get beam_sizes (beam_categories span_ft snow_load) [12, 18]"

definition rafter_categories :: "real \<Rightarrow> real \<Rightarrow> int \<times> int" where
  "rafter_categories span_ft snow_load =
     (let span_categories = [16, 24];
          load_categories = [30, 50, 70, 100];
          span_cat = category span_categories 24 span_ft;
          load_cat = category load_categories 100 snow_load
      in (span_cat, load_cat))"

definition get_rafter_size :: "real \<Rightarrow> real \<Rightarrow> member_size" where
  "get_rafter_size span_ft snow_load =
     dict_get rafter_sizes (rafter_categories span_ft snow_load) [8, 14]"

section \<open>Structure calculator\<close>

text \<open>
  \<^verbatim>\<open>TimberFrameStructure.__init__\<close> stores the five inputs and calls
  \<^verbatim>\<open>calculate_dimensions\<close>, which assigns the six derived attributes. The inputs are a
  record, the object after construction is its extension. The attribute \<^verbatim>\<open>length\<close> is the
  field \<open>length_ft\<close> (\<open>length\<close> is the list function of HOL). The attribute
  \<^verbatim>\<open>designer\<close> only holds the constant tables above.
\<close>

record structure_spec =
  length_ft :: real
  width :: real
  wall_height :: real
  roof_pitch :: real
  snow_load :: real

record timber_structure = structure_spec +
  post_size :: member_size
  beam_size :: member_size
  rafter_size :: member_size
  ridge_height :: real
  num_bents :: int
  bent_spacing :: real

subsection \<open>Binary64 rounding\<close>

text \<open>
  A Python float is an IEEE 754 binary64 number and every float operation returns the
  exact result rounded to the nearest such number, ties to even. For a real \<open>x\<close> the
  binary exponent is \<open>\<lfloor>log 2 \<bar>x\<bar>\<rfloor>\<close>, at least \<open>-1022\<close> (below that the numbers are
  subnormal), and the representable numbers around \<open>x\<close> are the integer multiples of
  \<open>2 powr (e - 52)\<close>. Overflow to infinity is not modelled: the one rounded operation of
  the calculator, the quotient of a finite float by a whole number of gaps, is never
  larger in magnitude than its dividend.
\<close>

definition round_half_even :: "real \<Rightarrow> int" where
  "round_half_even y =
     (let f = \<lfloor>y\<rfloor>; r = y - of_int f
      in if r < 1 / 2 then f else if 1 / 2 < r then f + 1
         else if even f then f else f + 1)"

definition binary64_round :: "real \<Rightarrow> real" where
  "binary64_round x =
     (if x = 0 then 0
      else let e = max \<lfloor>log 2 \<bar>x\<bar>\<rfloor> (- 1022);
               ulp = 2 powr of_int (e - 52)
           in of_int (round_half_even (x / ulp)) * ulp)"

text \<open>
  In \<^verbatim>\<open>a / b\<close> and \<^verbatim>\<open>a * b\<close> with a float \<^verbatim>\<open>a\<close> and an int \<^verbatim>\<open>b\<close>, Python first converts
  the int to the nearest float, then rounds the quotient or product.
\<close>

definition int_to_float :: "int \<Rightarrow> real" where
  "int_to_float k = binary64_round (of_int k)"

definition float_truediv :: "real \<Rightarrow> real \<Rightarrow> real" where
  "float_truediv a b = binary64_round (a / b)"

definition float_mul :: "real \<Rightarrow> real \<Rightarrow> real" where
  "float_mul a b = binary64_round (a * b)"

text \<open>\<^verbatim>\<open>int(x)\<close> on a float truncates toward zero.\<close>

definition py_int :: "real \<Rightarrow> int" where
  "py_int x = (if 0 \<le> x then \<lfloor>x\<rfloor> else \<lceil>x\<rceil>)"

definition calculate_dimensions :: "structure_spec \<Rightarrow> timber_structure" where
  "calculate_dimensions self =
     (let post = get_post_size (snow_load self);
          beam = get_beam_size (width self) (snow_load self);
          rafter_span = width self / 2;
          rafter = get_rafter_size rafter_span (snow_load self);
          ridge = wall_height self + (width self / 2) * roof_pitch self;
          ideal_spacing = 12;
          bents = max 2 (py_int (length_ft self / ideal_spacing) + 1);
          spacing = (if bents > 1 then float_truediv (length_ft self) (int_to_float (bents - 1))
                     else length_ft self)
      in \<lparr>length_ft = length_ft self, width = width self, wall_height = wall_height self,
          roof_pitch = roof_pitch self, snow_load = snow_load self,
          post_size = post, beam_size = beam, rafter_size = rafter,
          ridge_height = ridge, num_bents = bents, bent_spacing = spacing\<rparr>)"

definition TimberFrameStructure :: "real \<Rightarrow> real \<Rightarrow> real \<Rightarrow> real \<Rightarrow> real \<Rightarrow> timber_structure" where
  "TimberFrameStructure len wid wall pitch load =
     calculate_dimensions \<lparr>length_ft = len, width = wid, wall_height = wall,
                           roof_pitch = pitch, snow_load = load\<rparr>"

section \<open>Report formatter\<close>

text \<open>
  The report is one f-string. Its model keeps the template and the interpolated values
  apart: a line is a list of tokens, the string is the lines joined by newlines.
  \<open>Lit\<close> is literal ASCII text, \<open>Uni\<close> one character given by its code point (the box
  drawing characters, the multiplication sign U+00D7 and the inch mark U+0022),
  \<open>IntV\<close> an interpolated int, \<open>FloatV\<close> an interpolated float printed by \<^verbatim>\<open>str\<close>, and
  \<open>Fixed n\<close> a float printed with the format \<^verbatim>\<open>:.nf\<close>. The rendering of a number as
  digits is not modelled.
\<close>

datatype token = Lit string | Uni nat | IntV int | FloatV real | Fixed nat real

datatype py_error = IndexError | EOFError

text \<open>\<^verbatim>\<open>int(np.ceil(x))\<close>: \<^verbatim>\<open>np.ceil\<close> returns the ceiling as a float.\<close>

definition np_ceil :: "real \<Rightarrow> real" where
  "np_ceil x = of_int \<lceil>x\<rceil>"

text \<open>
  \<^verbatim>\<open>self.post_size[0]\<close> and the five other subscripts raise \<^verbatim>\<open>IndexError\<close> on a list
  that is too short; nothing else in the f-string can raise on real numbers. The method
  assigns no attribute and performs no input or output, so its model returns the report only.
\<close>

definition get_structure_report :: "timber_structure \<Rightarrow> py_error + token list list" where
  "get_structure_report self =
     (if length (post_size self) < 2 \<or> length (beam_size self) < 2
         \<or> length (rafter_size self) < 2 then Inl IndexError
      else Inr
       [[],
        [Uni 0x2554] @ replicate 62 (Uni 0x2550) @ [Uni 0x2557],
        [Uni 0x2551, Lit ''           TIMBER FRAME STRUCTURE DESIGN REPORT               '',
         Uni 0x2551],
        [Uni 0x255A] @ replicate 62 (Uni 0x2550) @ [Uni 0x255D],
        [],
        [Lit ''BUILDING DIMENSIONS:''],
        [Lit ''  Length:        '', FloatV (length_ft self), Lit '' ft''],
        [Lit ''  Width:         '', FloatV (width self), Lit '' ft''],
        [Lit ''  Wall Height:   '', FloatV (wall_height self), Lit '' ft''],
        [Lit ''  Ridge Height:  '', Fixed 1 (ridge_height self), Lit '' ft''],
        [Lit ''  Roof Pitch:    '', Fixed 0 (roof_pitch self * 12), Lit ''/12''],
        [],
        [Lit ''DESIGN LOADS:''],
        [Lit ''  Snow Load:     '', FloatV (snow_load self), Lit '' psf''],
        [],
        [Lit ''STRUCTURAL MEMBERS:''],
        [Lit ''  Posts:         '', IntV (post_size self ! 0), Uni 0x22, Lit '' '', Uni 0xD7,
         Lit '' '', IntV (post_size self ! 1), Uni 0x22],
        [Lit ''  Beams:         '', IntV (beam_size self ! 0), Uni 0x22, Lit '' '', Uni 0xD7,
         Lit '' '', IntV (beam_size self ! 1), Uni 0x22],
        [Lit ''  Rafters:       '', IntV (rafter_size self ! 0), Uni 0x22, Lit '' '', Uni 0xD7,
         Lit '' '', IntV (rafter_size self ! 1), Uni 0x22],
        [],
        [Lit ''FRAME LAYOUT:''],
        [Lit ''  Number of Bents: '', IntV (num_bents self)],
        [Lit ''  Bent Spacing:    '', Fixed 1 (bent_spacing self), Lit '' ft on center''],
        [],
        [Lit ''MATERIAL REQUIREMENTS (Approximate):''],
        [Lit ''  Posts:         '', IntV (num_bents self * 2), Lit '' pieces @ '',
         FloatV (wall_height self), Lit '' ft''],
        [Lit ''  Beams:         '', IntV (num_bents self), Lit '' pieces @ '',
         FloatV (width self), Lit '' ft''],
        [Lit ''  Rafters:       '', IntV (num_bents self * 2), Lit '' pieces @ '',
         Fixed 1 ((width self / 2) / cos (arctan (roof_pitch self))), Lit '' ft''],
        [Lit ''  Plates:        '', IntV (py_int (np_ceil (length_ft self * 2 / 16))),
         Lit '' pieces @ 16 ft (both walls)''],
        [Lit ''NOTE: This is a preliminary design. Consult a licensed structural ''],
        [Lit ''engineer for final design and local building code compliance.''],
        [Lit ''        '']])"

section \<open>Interactive prompt loop\<close>

text \<open>
  \<^verbatim>\<open>float(input(prompt))\<close> either raises \<^verbatim>\<open>ValueError\<close> (the line is no float literal)
  or yields a float. A Python float is a finite number, an infinity or NaN: \<^verbatim>\<open>float\<close>
  accepts the lines \<^verbatim>\<open>inf\<close>, \<^verbatim>\<open>-inf\<close> and \<^verbatim>\<open>nan\<close>. Every comparison with NaN is false.
\<close>

datatype pyfloat = Finite real | PosInf | NegInf | NaN

fun float_le :: "pyfloat \<Rightarrow> real \<Rightarrow> bool" where
  "float_le (Finite x) c = (x \<le> c)"
| "float_le PosInf c = False"
| "float_le NegInf c = True"
| "float_le NaN c = False"

fun float_lt :: "pyfloat \<Rightarrow> real \<Rightarrow> bool" where
  "float_lt (Finite x) c = (x < c)"
| "float_lt PosInf c = False"
| "float_lt NegInf c = True"
| "float_lt NaN c = False"

fun float_gt :: "pyfloat \<Rightarrow> real \<Rightarrow> bool" where
  "float_gt (Finite x) c = (x > c)"
| "float_gt PosInf c = True"
| "float_gt NegInf c = False"
| "float_gt NaN c = False"

text \<open>
  The operator's input is the list of the outcomes of the successive
  \<^verbatim>\<open>float(input(prompt))\<close> calls; at the end of the input \<^verbatim>\<open>input\<close> raises
  \<^verbatim>\<open>EOFError\<close>, which the loop does not catch. The messages printed by the loop are
  returned with the result; the prompt itself is not recorded.
\<close>

datatype entry = Unparsable | Parsed pyfloat

datatype message = Please_positive | Please_ge real | Please_le real | Invalid_input

fun printed :: "message \<Rightarrow> message list \<times> 'a \<Rightarrow> message list \<times> 'a" where
  "printed m (out, r) = (m # out, r)"

fun get_positive_float ::
  "real option \<Rightarrow> real option \<Rightarrow> entry list
     \<Rightarrow> message list \<times> (py_error + pyfloat \<times> entry list)" where
  "get_positive_float min_val max_val [] = ([], Inl EOFError)"
| "get_positive_float min_val max_val (Unparsable # rest) =
     printed Invalid_input (get_positive_float min_val max_val rest)"
| "get_positive_float min_val max_val (Parsed v # rest) =
     (if float_le v 0 then
        printed Please_positive (get_positive_float min_val max_val rest)
      else if min_val \<noteq> None \<and> float_lt v (the min_val) then
        printed (Please_ge (the min_val)) (get_positive_float min_val max_val rest)
      else if max_val \<noteq> None \<and> float_gt v (the max_val) then
        printed (Please_le (the max_val)) (get_positive_float min_val max_val rest)
      else ([], Inr (v, rest)))"

section \<open>Vocabulary of the statements\<close>

text \<open>
  The classification rule of the specification, in its own words: the smallest predefined
  category that is at least the input, and the largest category when the input exceeds
  all of them.
\<close>

definition smallest_at_least :: "int list \<Rightarrow> real \<Rightarrow> int \<Rightarrow> bool" where
  "smallest_at_least categories x c \<longleftrightarrow>
     c \<in> set categories \<and> x \<le> of_int c
     \<and> (\<forall>c' \<in> set categories. x \<le> of_int c' \<longrightarrow> c \<le> c')"

definition largest_category :: "int list \<Rightarrow> int \<Rightarrow> bool" where
  "largest_category categories c \<longleftrightarrow>
     c \<in> set categories \<and> (\<forall>c' \<in> set categories. c' \<le> c)"

definition rounds_up :: "int list \<Rightarrow> real \<Rightarrow> int \<Rightarrow> bool" where
  "rounds_up categories x c \<longleftrightarrow>
     (if \<exists>c' \<in> set categories. x \<le> of_int c' then smallest_at_least categories x c
      else largest_category categories c)"

text \<open>
  The entries that the three tests of \<^verbatim>\<open>get_positive_float\<close> let through: the negations
  of the conditions of its three \<^verbatim>\<open>continue\<close> branches.
\<close>

definition accepted :: "real option \<Rightarrow> real option \<Rightarrow> entry \<Rightarrow> bool" where
  "accepted min_val max_val e =
     (case e of Unparsable \<Rightarrow> False
      | Parsed v \<Rightarrow> \<not> float_le v 0 \<and> \<not> (min_val \<noteq> None \<and> float_lt v (the min_val))
                    \<and> \<not> (max_val \<noteq> None \<and> float_gt v (the max_val)))"

section \<open>Properties of the size selector\<close>

subsection \<open>Posts\<close>

lemma get_post_size_cases:
  "get_post_size L =
     (if 0 \<le> L \<and> L < 30 then [6, 6]
      else if 30 \<le> L \<and> L < 50 then [8, 8]
      else if 50 \<le> L \<and> L < 70 then [10, 10]
      else [12, 12])"
  by (simp add: get_post_size_def post_sizes_def)

lemma length_get_post_size: "length (get_post_size L) = 2"
  by (simp add: get_post_size_cases)

text \<open>
  Claim C1. For every snow load \<open>L \<ge> 0\<close>, \<open>get_post_size\<close> returns \<open>[6, 6]\<close> on
  \<open>[0, 30)\<close>, \<open>[8, 8]\<close> on \<open>[30, 50)\<close>, \<open>[10, 10]\<close> on \<open>[50, 70)\<close>, \<open>[12, 12]\<close> on
  \<open>[70, 100)\<close>, and from 100 on the value \<open>[12, 12]\<close> of the code after the loop, no
  bucket of the table holding the load. The selector is a function on all loads, so it is
  deterministic and total.
\<close>

theorem get_post_size_buckets:
  "0 \<le> L \<Longrightarrow>
     (L < 30 \<longrightarrow> get_post_size L = [6, 6]) \<and>
     (30 \<le> L \<and> L < 50 \<longrightarrow> get_post_size L = [8, 8]) \<and>
     (50 \<le> L \<and> L < 70 \<longrightarrow> get_post_size L = [10, 10]) \<and>
     (70 \<le> L \<and> L < 100 \<longrightarrow> get_post_size L = [12, 12]) \<and>
     (100 \<le> L \<longrightarrow> get_post_size L = [12, 12] \<and>
        \<not> (\<exists>b \<in> set post_sizes. of_int (fst (fst b)) \<le> L \<and> L < of_int (snd (fst b))))"
  by (simp add: get_post_size_cases post_sizes_def)

theorem get_post_size_buckets_witness:
  "get_post_size 10 = [6, 6] \<and> get_post_size 30 = [8, 8] \<and> get_post_size 60 = [10, 10]
   \<and> get_post_size 99 = [12, 12] \<and> get_post_size 100 = [12, 12]"
  using get_post_size_buckets [of 10] get_post_size_buckets [of 30]
    get_post_size_buckets [of 60] get_post_size_buckets [of 99] get_post_size_buckets [of 100]
  by simp

text \<open>
  Claim C10. \<open>get_post_size\<close> is monotone: for loads \<open>0 \<le> L1 \<le> L2\<close> the size for \<open>L1\<close>
  is componentwise at most the size for \<open>L2\<close>.
\<close>

theorem get_post_size_mono:
  "0 \<le> L1 \<Longrightarrow> L1 \<le> L2 \<Longrightarrow> list_all2 (\<le>) (get_post_size L1) (get_post_size L2)"
  by (simp add: get_post_size_cases)

theorem get_post_size_mono_witness:
  "(0::real) \<le> 10 \<and> (10::real) \<le> 60 \<and> list_all2 (\<le>) (get_post_size 10) (get_post_size 60)"
  using get_post_size_mono [of 10 60] by simp

subsection \<open>Classification into categories\<close>

lemma category_span4:
  "category [16, 24, 32, 40] 40 x =
     (if x \<le> 16 then 16 else if x \<le> 24 then 24 else if x \<le> 32 then 32 else 40)"
  by (simp add: category_def)

lemma category_span2:
  "category [16, 24] 24 x = (if x \<le> 16 then 16 else 24)"
  by (simp add: category_def)

lemma category_load:
  "category [30, 50, 70, 100] 100 x =
     (if x \<le> 30 then 30 else if x \<le> 50 then 50 else if x \<le> 70 then 70 else 100)"
  by (simp add: category_def)

lemma min_default_filter_in:
  "filter P cs \<noteq> [] \<Longrightarrow> min_default (filter P cs) d \<in> set (filter P cs)"
proof -
  assume ne: "filter P cs \<noteq> []"
  then obtain y ys where eq: "filter P cs = y # ys"
    by (cases "filter P cs") auto
  have "fold min ys y = Min (set (y # ys))"
    by (simp only: Min.set_eq_fold)
  moreover have "Min (set (y # ys)) \<in> set (y # ys)"
    by (rule Min_in) auto
  ultimately show ?thesis
    by (simp add: eq)
qed

lemma min_default_filter_le:
  "c' \<in> set (filter P cs) \<Longrightarrow> min_default (filter P cs) d \<le> c'"
proof -
  assume mem: "c' \<in> set (filter P cs)"
  then obtain y ys where eq: "filter P cs = y # ys"
    by (cases "filter P cs") auto
  have "fold min ys y = Min (set (y # ys))"
    by (simp only: Min.set_eq_fold)
  moreover have "Min (set (y # ys)) \<le> c'"
    using mem by (intro Min_le) (auto simp: eq)
  ultimately show ?thesis
    by (simp add: eq)
qed

text \<open>
  The expression \<^verbatim>\<open>min([c for c in categories if x <= c], default=d)\<close> rounds up, for any
  list of categories whose largest element is the default.
\<close>

lemma category_rounds_up:
  assumes "largest_category categories d"
  shows "rounds_up categories x (category categories d x)"
proof (cases "\<exists>c' \<in> set categories. x \<le> of_int c'")
  case True
  let ?f = "filter (\<lambda>c. x \<le> of_int c) categories"
  from True have ne: "?f \<noteq> []"
    by (auto simp: filter_empty_conv)
  have "min_default ?f d \<in> set ?f"
    using ne by (rule min_default_filter_in)
  moreover have "\<forall>c' \<in> set categories. x \<le> of_int c' \<longrightarrow> min_default ?f d \<le> c'"
    by (auto intro: min_default_filter_le)
  ultimately show ?thesis
    using True by (simp add: rounds_up_def smallest_at_least_def category_def)
next
  case False
  then have "filter (\<lambda>c. x \<le> of_int c) categories = []"
    by (auto simp: filter_empty_conv)
  then show ?thesis
    using False assms by (simp add: rounds_up_def category_def)
qed

text \<open>
  Claim C2. For every span and load, \<open>get_beam_size\<close> and \<open>get_rafter_size\<close> classify
  each input into the smallest predefined category that is at least the input (an input
  equal to a category gets that category, since the test is \<open>\<le>\<close>), take the largest
  category when the input exceeds all of them, and look the pair up with a default. Both
  are functions without an error value: \<^verbatim>\<open>min\<close> with a default and \<^verbatim>\<open>dict.get\<close> have no
  raising branch.
\<close>

theorem categories_round_up:
  "rounds_up [16, 24, 32, 40] sp (fst (beam_categories sp ld))
   \<and> rounds_up [30, 50, 70, 100] ld (snd (beam_categories sp ld))
   \<and> get_beam_size sp ld = dict_get beam_sizes (beam_categories sp ld) [12, 18]
   \<and> rounds_up [16, 24] sp (fst (rafter_categories sp ld))
   \<and> rounds_up [30, 50, 70, 100] ld (snd (rafter_categories sp ld))
   \<and> get_rafter_size sp ld = dict_get rafter_sizes (rafter_categories sp ld) [8, 14]"
proof -
  have a: "largest_category [16, 24, 32, 40] 40"
    by (simp add: largest_category_def)
  have b: "largest_category [30, 50, 70, 100] 100"
    by (simp add: largest_category_def)
  have c: "largest_category [16, 24] 24"
    by (simp add: largest_category_def)
  show ?thesis
    using category_rounds_up [OF a, of sp] category_rounds_up [OF b, of ld]
      category_rounds_up [OF c, of sp]
    by (simp add: beam_categories_def rafter_categories_def get_beam_size_def
        get_rafter_size_def)
qed

theorem categories_round_up_witness:
  "fst (beam_categories 20 45) = 24 \<and> snd (beam_categories 20 45) = 50
   \<and> smallest_at_least [16, 24, 32, 40] 20 24 \<and> smallest_at_least [30, 50, 70, 100] 45 50
   \<and> fst (beam_categories 24 150) = 24 \<and> snd (beam_categories 24 150) = 100
   \<and> largest_category [30, 50, 70, 100] 100
   \<and> fst (rafter_categories 30 70) = 24 \<and> snd (rafter_categories 30 70) = 70
   \<and> get_beam_size 20 45 = [8, 14] \<and> get_rafter_size 30 70 = [8, 12]"
  using categories_round_up [of 20 45] categories_round_up [of 24 150]
    categories_round_up [of 30 70]
  by (simp add: rounds_up_def beam_categories_def rafter_categories_def category_span4
      category_span2 category_load dict_get_def beam_sizes_def rafter_sizes_def)

text \<open>
  Claim C3. \<open>get_beam_size\<close> at span 16 and load 30 is \<open>[6, 10]\<close>; at span 20 and load 45
  it is \<open>[8, 14]\<close>, the span classified as 24 and the load as 50.
\<close>

theorem get_beam_size_examples:
  "get_beam_size 16 30 = [6, 10] \<and> get_beam_size 20 45 = [8, 14]
   \<and> beam_categories 20 45 = (24, 50)"
  by (simp add: get_beam_size_def beam_categories_def category_span4 category_load
      dict_get_def beam_sizes_def)

text \<open>
  Claim C9. For every span and load, the pair of categories computed by \<open>get_beam_size\<close>
  is a key of the beam table and the pair computed by \<open>get_rafter_size\<close> is a key of the
  rafter table: each result is the table's entry, never the default of the absent-key
  branch.
\<close>

theorem lookup_never_misses:
  "(\<exists>v. map_of beam_sizes (beam_categories sp ld) = Some v \<and> get_beam_size sp ld = v)
   \<and> (\<exists>v. map_of rafter_sizes (rafter_categories sp ld) = Some v
          \<and> get_rafter_size sp ld = v)"
  by (simp add: get_beam_size_def get_rafter_size_def beam_categories_def rafter_categories_def
      category_span4 category_span2 category_load dict_get_def beam_sizes_def rafter_sizes_def)

lemma beam_sizes_length: "map_of beam_sizes k = Some v \<Longrightarrow> length v = 2"
  by (auto simp: beam_sizes_def split: if_splits)

lemma rafter_sizes_length: "map_of rafter_sizes k = Some v \<Longrightarrow> length v = 2"
  by (auto simp: rafter_sizes_def split: if_splits)

lemma length_get_beam_size: "length (get_beam_size sp ld) = 2"
  by (auto simp: get_beam_size_def dict_get_def beam_sizes_length split: option.splits)

lemma length_get_rafter_size: "length (get_rafter_size sp ld) = 2"
  by (auto simp: get_rafter_size_def dict_get_def rafter_sizes_length split: option.splits)

section \<open>Properties of the structure calculator\<close>

lemma num_bents_eq:
  "num_bents (TimberFrameStructure len w h p s) = max 2 (py_int (len / 12) + 1)"
  by (simp add: TimberFrameStructure_def calculate_dimensions_def Let_def)

lemma constructed_sizes:
  "length (post_size (TimberFrameStructure len w h p s)) = 2"
  "length (beam_size (TimberFrameStructure len w h p s)) = 2"
  "length (rafter_size (TimberFrameStructure len w h p s)) = 2"
  by (simp_all add: TimberFrameStructure_def calculate_dimensions_def Let_def
      length_get_post_size length_get_beam_size length_get_rafter_size)

lemma constructed_inputs:
  "length_ft (TimberFrameStructure len w h p s) = len"
  "width (TimberFrameStructure len w h p s) = w"
  "wall_height (TimberFrameStructure len w h p s) = h"
  "roof_pitch (TimberFrameStructure len w h p s) = p"
  "snow_load (TimberFrameStructure len w h p s) = s"
  by (simp_all add: TimberFrameStructure_def calculate_dimensions_def Let_def)

text \<open>
  Claim C4. For every valid length, \<open>10 \<le> length \<le> 100\<close>, the number of bents is
  \<open>max 2 (int (length / 12) + 1)\<close>: the length divided by the ideal spacing of 12 ft,
  truncated (here the floor, the quotient being positive), plus one, and at least 2.
  It is an integer between 2 and 9.
\<close>

theorem num_bents_valid_length:
  "10 \<le> len \<Longrightarrow> len \<le> 100 \<Longrightarrow>
     num_bents (TimberFrameStructure len w h p s) = max 2 (py_int (len / 12) + 1)
     \<and> py_int (len / 12) = \<lfloor>len / 12\<rfloor>
     \<and> 2 \<le> num_bents (TimberFrameStructure len w h p s)
     \<and> num_bents (TimberFrameStructure len w h p s) \<le> 9"
proof -
  assume lo: "10 \<le> len" and hi: "len \<le> 100"
  have fl: "py_int (len / 12) = \<lfloor>len / 12\<rfloor>"
    using lo by (simp add: py_int_def)
  have "\<lfloor>len / 12\<rfloor> \<le> 8"
    using hi by (simp add: floor_le_iff)
  then show ?thesis
    by (simp add: num_bents_eq fl)
qed

theorem num_bents_valid_length_witness:
  "(10::real) \<le> 40 \<and> (40::real) \<le> 100 \<and> num_bents (TimberFrameStructure 40 30 10 0.5 40) = 4"
  using num_bents_valid_length [of 40 30 10 "0.5" 40] by simp

subsection \<open>Rounding error of the bent spacing\<close>

lemma round_half_even_error: "\<bar>of_int (round_half_even y) - y\<bar> \<le> 1 / 2"
  unfolding round_half_even_def Let_def by (auto simp: abs_if) linarith+

lemma round_half_even_of_int: "round_half_even (of_int m) = m"
  by (simp add: round_half_even_def)

lemma binary64_round_rel:
  assumes "2 powr (- 1022) \<le> \<bar>x\<bar>"
  shows "\<bar>binary64_round x - x\<bar> \<le> \<bar>x\<bar> / 2 ^ 53"
proof -
  define e where "e = \<lfloor>log 2 \<bar>x\<bar>\<rfloor>"
  define ulp :: real where "ulp = 2 powr of_int (e - 52)"
  have "(0::real) < 2 powr (- 1022)"
    by simp
  then have pos: "0 < \<bar>x\<bar>"
    using assms by linarith
  then have nz: "x \<noteq> 0" by simp
  have "- 1022 \<le> log 2 \<bar>x\<bar>"
    using assms pos by (simp add: le_log_iff)
  then have elo: "- 1022 \<le> e"
    unfolding e_def by (simp add: le_floor_iff)
  have "of_int e \<le> log 2 \<bar>x\<bar>"
    unfolding e_def by simp
  then have pe: "2 powr of_int e \<le> \<bar>x\<bar>"
    using pos by (simp add: le_log_iff)
  have ulp_pos: "0 < ulp" by (simp add: ulp_def)
  have ulp_eq: "ulp = 2 powr of_int e / 2 ^ 52"
    by (simp add: ulp_def powr_diff)
  have m: "max \<lfloor>log 2 \<bar>x\<bar>\<rfloor> (- 1022) = e"
    using elo by (simp add: e_def)
  have r: "binary64_round x = of_int (round_half_even (x / ulp)) * ulp"
    unfolding binary64_round_def Let_def m ulp_def using nz by simp
  have "(of_int (round_half_even (x / ulp)) - x / ulp) * ulp = binary64_round x - x"
    using ulp_pos by (simp add: r left_diff_distrib)
  then have "\<bar>binary64_round x - x\<bar> = \<bar>(of_int (round_half_even (x / ulp)) - x / ulp) * ulp\<bar>"
    by simp
  also have "\<dots> = \<bar>of_int (round_half_even (x / ulp)) - x / ulp\<bar> * ulp"
    using ulp_pos by (simp add: abs_mult)
  also have "\<dots> \<le> (1 / 2) * ulp"
    using round_half_even_error [of "x / ulp"] ulp_pos by (intro mult_right_mono) auto
  also have "\<dots> = 2 powr of_int e / 2 ^ 53"
    by (simp add: ulp_eq)
  also have "\<dots> \<le> \<bar>x\<bar> / 2 ^ 53"
    using pe by (simp add: divide_right_mono)
  finally show ?thesis .
qed


lemma binary64_round_small_int:
  assumes "1 \<le> k" "k < 2 ^ 53"
  shows "binary64_round (of_int k) = of_int k"
proof -
  define e where "e = \<lfloor>log 2 \<bar>of_int k :: real\<bar>\<rfloor>"
  have kpos: "(0::real) < of_int k" using assms by simp
  have ab: "\<bar>of_int k :: real\<bar> = of_int k" using assms by simp
  have "0 \<le> log 2 (of_int k)"
    using assms by simp
  then have e0: "0 \<le> e" by (simp add: e_def ab)
  have "log 2 (of_int k) < 53"
    using assms kpos by (simp add: log_less_iff)
  then have e52: "e \<le> 52" by (simp add: e_def ab floor_le_iff)
  define j where "j = nat (52 - e)"
  have je: "real_of_int (e - 52) = - real j"
    using e52 by (simp add: j_def)
  have ulp: "(2::real) powr real_of_int (e - 52) = 1 / 2 ^ j"
    unfolding je by (simp add: powr_minus powr_realpow inverse_eq_divide)
  have m: "max \<lfloor>log 2 \<bar>of_int k :: real\<bar>\<rfloor> (- 1022) = e"
    using e0 by (simp add: e_def)
  have q: "of_int k / (1 / 2 ^ j) = (of_int (k * 2 ^ j) :: real)"
    by simp
  have "binary64_round (of_int k) = of_int (round_half_even (of_int k / (1 / 2 ^ j))) * (1 / 2 ^ j)"
    unfolding binary64_round_def Let_def m ulp using kpos by simp
  also have "\<dots> = of_int (k * 2 ^ j) * (1 / 2 ^ j)"
    unfolding q round_half_even_of_int ..
  also have "\<dots> = of_int k"
    by simp
  finally show ?thesis .
qed


lemma binary64_round_at:
  fixes e :: nat
  assumes "2 ^ e \<le> x" "x < 2 ^ (e + 1)" "e \<le> 52"
  shows "binary64_round x = of_int (round_half_even (x * 2 ^ (52 - e))) / 2 ^ (52 - e)"
proof -
  have "(0::real) < 2 ^ e"
    by simp
  then have xpos: "0 < x"
    using assms(1) by linarith
  have "\<lfloor>log 2 x\<rfloor> = int e"
    using xpos assms(1,2) by (simp add: floor_log_eq_powr_iff powr_realpow powr_add)
  then have m: "max \<lfloor>log 2 \<bar>x\<bar>\<rfloor> (- 1022) = int e"
    using xpos by simp
  have je: "real_of_int (int e - 52) = - real (52 - e)"
    using assms(3) by simp
  have ulp: "(2::real) powr real_of_int (int e - 52) = 1 / 2 ^ (52 - e)"
    unfolding je by (simp add: powr_minus powr_realpow inverse_eq_divide)
  show ?thesis
    unfolding binary64_round_def Let_def m ulp using xpos by simp
qed

lemma num_bents_range:
  assumes "10 \<le> len" "len \<le> 100"
  shows "2 \<le> num_bents (TimberFrameStructure len w h p s)"
    and "num_bents (TimberFrameStructure len w h p s) \<le> 9"
proof -
  have fl: "py_int (len / 12) = \<lfloor>len / 12\<rfloor>"
    using assms(1) by (simp add: py_int_def)
  have "\<lfloor>len / 12\<rfloor> \<le> 8"
    using assms(2) by (simp add: floor_le_iff)
  then show "num_bents (TimberFrameStructure len w h p s) \<le> 9"
    by (simp add: num_bents_eq fl)
  show "2 \<le> num_bents (TimberFrameStructure len w h p s)"
    by (simp add: num_bents_eq)
qed

lemma bent_spacing_eq:
  "bent_spacing (TimberFrameStructure len w h p s) =
     float_truediv len (int_to_float (num_bents (TimberFrameStructure len w h p s) - 1))"
  by (simp add: TimberFrameStructure_def calculate_dimensions_def Let_def max_def)

lemma tiny_le_one: "(2::real) powr (- 1022) \<le> 1"
proof -
  have "(2::real) powr (- 1022) \<le> 2 powr 0"
    by (rule powr_mono) auto
  then show ?thesis by simp
qed

lemma round_trip_tolerance:
  fixes len G :: real
  assumes len: "10 \<le> len" and G: "1 \<le> G" "G \<le> 8"
  shows "\<bar>binary64_round (len / G) * G - len\<bar> \<le> len / 2 ^ 53"
    and "\<bar>binary64_round (binary64_round (len / G) * G) - len\<bar>
           \<le> len * (2 / 2 ^ 53 + 1 / 2 ^ 106)"
proof -
  define q where "q = len / G"
  define sp where "sp = binary64_round q"
  define u :: real where "u = 1 / 2 ^ 53"
  have upos: "0 < u" "u < 1" by (simp_all add: u_def)
  have qG: "q * G = len" using G by (simp add: q_def)
  have "G \<le> len"
    using len G by linarith
  then have q1: "1 \<le> q"
    using G by (simp add: q_def le_divide_eq)
  then have "2 powr (- 1022) \<le> \<bar>q\<bar>"
    using tiny_le_one by linarith
  then have "\<bar>sp - q\<bar> \<le> \<bar>q\<bar> / 2 ^ 53"
    unfolding sp_def by (rule binary64_round_rel)
  then have sq: "\<bar>sp - q\<bar> \<le> q * u"
    using q1 by (simp add: u_def)
  have "sp * G - len = (sp - q) * G"
    by (simp add: left_diff_distrib qG)
  then have "\<bar>sp * G - len\<bar> = \<bar>sp - q\<bar> * G"
    using G by (simp add: abs_mult)
  also have "\<dots> \<le> (q * u) * G"
    using sq G by (intro mult_right_mono) auto
  also have "\<dots> = len * u"
    using qG by (simp add: mult.assoc mult.commute [of u G] flip: mult.assoc)
  finally have first: "\<bar>sp * G - len\<bar> \<le> len * u" .
  then show "\<bar>binary64_round (len / G) * G - len\<bar> \<le> len / 2 ^ 53"
    by (simp add: sp_def q_def u_def)
  define pr where "pr = sp * G"
  have "len * u \<le> len * (1 / 2)"
    using len by (intro mult_left_mono) (auto simp: u_def)
  then have lu: "len * u \<le> len / 2"
    by simp
  have near: "len - len * u \<le> pr" "pr \<le> len + len * u"
    using first unfolding pr_def abs_le_iff by linarith+
  have pr_lo: "1 \<le> pr"
    using near(1) lu len by linarith
  have pr_hi: "pr \<le> len * (1 + u)"
    using near(2) by (simp add: distrib_left)
  have "2 powr (- 1022) \<le> \<bar>pr\<bar>"
    using pr_lo tiny_le_one by linarith
  then have "\<bar>binary64_round pr - pr\<bar> \<le> \<bar>pr\<bar> / 2 ^ 53"
    by (rule binary64_round_rel)
  then have "\<bar>binary64_round pr - pr\<bar> \<le> pr * u"
    using pr_lo by (simp add: u_def)
  also have "\<dots> \<le> (len * (1 + u)) * u"
    using pr_hi upos by (intro mult_right_mono) auto
  finally have second: "\<bar>binary64_round pr - pr\<bar> \<le> len * (1 + u) * u" .
  have "\<bar>binary64_round pr - len\<bar> \<le> \<bar>binary64_round pr - pr\<bar> + \<bar>pr - len\<bar>"
    by linarith
  also have "\<dots> \<le> len * (1 + u) * u + len * u"
    using second first by (simp add: pr_def)
  also have "\<dots> = len * (2 / 2 ^ 53 + 1 / 2 ^ 106)"
    by (simp add: u_def algebra_simps)
  finally show "\<bar>binary64_round (binary64_round (len / G) * G) - len\<bar>
      \<le> len * (2 / 2 ^ 53 + 1 / 2 ^ 106)"
    by (simp add: pr_def sp_def q_def)
qed


text \<open>
  Claim C5. For every valid length, \<open>10 \<le> length \<le> 100\<close>, there is more than one bent
  and the bent spacing times the number of gaps, \<open>num_bents - 1\<close>, is the building length:
  exactly for the quotient of exact arithmetic, and within floating-point tolerance for
  the program, whose stored spacing is that quotient rounded to binary64. The stored
  spacing times the gaps differs from the length by at most \<open>length / 2 ^ 53\<close>, and the
  product computed in floats by at most \<open>length * (2 / 2 ^ 53 + 1 / 2 ^ 106)\<close>. The
  tolerance is needed: at the float nearest to 60.1 the float product is one unit in the
  last place below the length.
\<close>

theorem bent_spacing_times_gaps:
  "10 \<le> len \<Longrightarrow> len \<le> 100 \<Longrightarrow>
     1 < num_bents (TimberFrameStructure len w h p s)
     \<and> len / of_int (num_bents (TimberFrameStructure len w h p s) - 1)
           * of_int (num_bents (TimberFrameStructure len w h p s) - 1) = len
     \<and> bent_spacing (TimberFrameStructure len w h p s)
         = binary64_round (len / of_int (num_bents (TimberFrameStructure len w h p s) - 1))
     \<and> \<bar>bent_spacing (TimberFrameStructure len w h p s)
           * of_int (num_bents (TimberFrameStructure len w h p s) - 1) - len\<bar>
         \<le> len / 2 ^ 53
     \<and> \<bar>float_mul (bent_spacing (TimberFrameStructure len w h p s))
            (int_to_float (num_bents (TimberFrameStructure len w h p s) - 1)) - len\<bar>
         \<le> len * (2 / 2 ^ 53 + 1 / 2 ^ 106)"
proof -
  assume lo: "10 \<le> len" and hi: "len \<le> 100"
  define n where "n = num_bents (TimberFrameStructure len w h p s)"
  define G :: real where "G = of_int (n - 1)"
  have n: "2 \<le> n" "n \<le> 9"
    unfolding n_def using lo hi by (rule num_bents_range)+
  then have G: "1 \<le> G" "G \<le> 8"
    by (simp_all add: G_def)
  have "n - 1 < 2 ^ 53"
    using n by simp
  then have conv: "int_to_float (n - 1) = G"
    using n unfolding int_to_float_def G_def by (intro binary64_round_small_int) auto
  have sp: "bent_spacing (TimberFrameStructure len w h p s) = binary64_round (len / G)"
    using bent_spacing_eq [of len w h p s] by (simp add: n_def [symmetric] conv float_truediv_def)
  have exact: "len / G * G = len"
    using G by simp
  note tol = round_trip_tolerance [OF lo G]
  show ?thesis
    unfolding n_def [symmetric] G_def [symmetric] conv sp float_mul_def
    using n exact tol by simp
qed

theorem bent_spacing_times_gaps_witness:
  "(10::real) \<le> 8458323050155213 / 2 ^ 47 \<and> (8458323050155213 / 2 ^ 47 :: real) \<le> 100
   \<and> num_bents (TimberFrameStructure (8458323050155213 / 2 ^ 47) 30 10 0.5 40) = 6
   \<and> bent_spacing (TimberFrameStructure (8458323050155213 / 2 ^ 47) 30 10 0.5 40)
       = 3383329220062085 / 2 ^ 48
   \<and> float_mul (bent_spacing (TimberFrameStructure (8458323050155213 / 2 ^ 47) 30 10 0.5 40))
         (int_to_float 5) = 8458323050155212 / 2 ^ 47
   \<and> \<bar>float_mul (bent_spacing (TimberFrameStructure (8458323050155213 / 2 ^ 47) 30 10 0.5 40))
         (int_to_float 5) - 8458323050155213 / 2 ^ 47\<bar>
       \<le> 8458323050155213 / 2 ^ 47 * (2 / 2 ^ 53 + 1 / 2 ^ 106)"
proof -
  let ?L = "8458323050155213 / 2 ^ 47 :: real"
  let ?st = "TimberFrameStructure ?L 30 10 0.5 40"
  have lo: "10 \<le> ?L" and hi: "?L \<le> 100"
    by simp_all
  have nb: "num_bents ?st = 6"
    by (simp add: num_bents_eq py_int_def)
  have five: "int_to_float 5 = 5"
    using binary64_round_small_int [of 5] by (simp add: int_to_float_def)
  have q: "binary64_round (?L / 5) = 3383329220062085 / 2 ^ 48"
    using binary64_round_at [of 3 "?L / 5"] by (simp add: round_half_even_def Let_def)
  have pr: "binary64_round (3383329220062085 / 2 ^ 48 * 5) = 8458323050155212 / 2 ^ 47"
    using binary64_round_at [of 5 "3383329220062085 / 2 ^ 48 * 5"]
    by (simp add: round_half_even_def Let_def)
  note inst = bent_spacing_times_gaps [OF lo hi, of 30 10 "0.5" 40]
  have gaps: "real_of_int (num_bents ?st - 1) = 5"
    using nb by simp
  from inst have "bent_spacing ?st = binary64_round (?L / real_of_int (num_bents ?st - 1))"
    by (elim conjE)
  also have "\<dots> = binary64_round (?L / 5)"
    by (simp only: gaps)
  also note q
  finally have sp: "bent_spacing ?st = 3383329220062085 / 2 ^ 48" .
  have mul: "float_mul (bent_spacing ?st) (int_to_float 5) = 8458323050155212 / 2 ^ 47"
    unfolding sp five float_mul_def by (rule pr)
  have gaps': "num_bents ?st - 1 = 5"
    using nb by simp
  from inst have "\<bar>float_mul (bent_spacing ?st) (int_to_float (num_bents ?st - 1)) - ?L\<bar>
      \<le> ?L * (2 / 2 ^ 53 + 1 / 2 ^ 106)"
    by (elim conjE)
  then have tol: "\<bar>float_mul (bent_spacing ?st) (int_to_float 5) - ?L\<bar>
      \<le> ?L * (2 / 2 ^ 53 + 1 / 2 ^ 106)"
    by (simp only: gaps')
  show ?thesis
    using lo hi nb sp mul tol by (intro conjI)
qed

text \<open>
  Claim C6. The ridge height is \<open>wall_height + (width / 2) * roof_pitch\<close>; for a wall
  height of 10, a width of 30 and a pitch of 0.5 it is 17.5 ft.
\<close>

theorem ridge_height_formula:
  "ridge_height (TimberFrameStructure len w h p s) = h + (w / 2) * p
   \<and> ridge_height (TimberFrameStructure len 30 10 0.5 s) = 17.5"
  by (simp add: TimberFrameStructure_def calculate_dimensions_def Let_def)

section \<open>Properties of the report\<close>

lemma report_of_constructed:
  "length (post_size st) = 2 \<Longrightarrow> length (beam_size st) = 2 \<Longrightarrow> length (rafter_size st) = 2 \<Longrightarrow>
   \<exists>rep. get_structure_report st = Inr rep
     \<and> take 5 (drop 24 rep) =
        [[Lit ''MATERIAL REQUIREMENTS (Approximate):''],
         [Lit ''  Posts:         '', IntV (2 * num_bents st), Lit '' pieces @ '',
          FloatV (wall_height st), Lit '' ft''],
         [Lit ''  Beams:         '', IntV (num_bents st), Lit '' pieces @ '',
          FloatV (width st), Lit '' ft''],
         [Lit ''  Rafters:       '', IntV (2 * num_bents st), Lit '' pieces @ '',
          Fixed 1 ((width st / 2) / cos (arctan (roof_pitch st))), Lit '' ft''],
         [Lit ''  Plates:        '', IntV \<lceil>length_ft st * 2 / 16\<rceil>,
          Lit '' pieces @ 16 ft (both walls)'']]"
  by (simp add: get_structure_report_def py_int_def np_ceil_def)

text \<open>
  Claim C7. For every structure built from its five inputs, report generation returns a
  report (no subscript raises), and the material section of the report states
  \<open>2 * num_bents\<close> posts, \<open>num_bents\<close> beams, \<open>2 * num_bents\<close> rafters each of length
  \<open>(width / 2) / cos (arctan pitch)\<close>, and \<open>\<lceil>length * 2 / 16\<rceil>\<close> plates. The report is
  the only result of the function.
\<close>

theorem report_material_counts:
  "\<exists>rep. get_structure_report (TimberFrameStructure len w h p s) = Inr rep
     \<and> take 5 (drop 24 rep) =
        [[Lit ''MATERIAL REQUIREMENTS (Approximate):''],
         [Lit ''  Posts:         '', IntV (2 * num_bents (TimberFrameStructure len w h p s)),
          Lit '' pieces @ '', FloatV h, Lit '' ft''],
         [Lit ''  Beams:         '', IntV (num_bents (TimberFrameStructure len w h p s)),
          Lit '' pieces @ '', FloatV w, Lit '' ft''],
         [Lit ''  Rafters:       '', IntV (2 * num_bents (TimberFrameStructure len w h p s)),
          Lit '' pieces @ '', Fixed 1 ((w / 2) / cos (arctan p)), Lit '' ft''],
         [Lit ''  Plates:        '', IntV \<lceil>len * 2 / 16\<rceil>,
          Lit '' pieces @ 16 ft (both walls)'']]"
  using report_of_constructed [OF constructed_sizes, of len w h p s]
  by (simp only: constructed_inputs)

section \<open>Properties of the prompt loop\<close>

lemma snd_printed: "snd (printed m r) = snd r"
  by (cases r) simp

text \<open>
  The loop skips every entry that is not accepted and returns the first accepted one with
  the rest of the input; when no entry is accepted, the input runs out.
\<close>

lemma get_positive_float_first_accepted:
  "snd (get_positive_float min_val max_val es) =
     (case dropWhile (\<lambda>e. \<not> accepted min_val max_val e) es of
        [] \<Rightarrow> Inl EOFError
      | Unparsable # rest \<Rightarrow> Inl EOFError
      | Parsed v # rest \<Rightarrow> Inr (v, rest))"
proof (induction es)
  case Nil
  show ?case by simp
next
  case (Cons e es)
  show ?case
  proof (cases e)
    case Unparsable
    then show ?thesis using Cons.IH by (simp add: snd_printed accepted_def)
  next
    case (Parsed v)
    then show ?thesis using Cons.IH by (auto simp: snd_printed accepted_def)
  qed
qed

text \<open>
  With both bounds given, a finite number is accepted exactly when it is positive and
  within the bounds, both infinities and unparsable lines are rejected, and NaN is
  accepted: each of the three tests compares, and every comparison with NaN is false.
\<close>

lemma accepted_bounds:
  "accepted (Some a) (Some b) (Parsed (Finite x)) \<longleftrightarrow> 0 < x \<and> a \<le> x \<and> x \<le> b"
  "accepted (Some a) (Some b) (Parsed PosInf) = False"
  "accepted (Some a) (Some b) (Parsed NegInf) = False"
  "accepted (Some a) (Some b) Unparsable = False"
  "accepted (Some a) (Some b) (Parsed NaN) = True"
  by (auto simp: accepted_def)

text \<open>
  Claim C8. The claim is that the loop re-prompts on non-numeric text, zero, negative
  numbers and values outside the bounds, and returns the first entered value that is
  positive and within the bounds. At the length prompt (bounds 10 and 100) the line
  \<^verbatim>\<open>nan\<close> is returned at once; and in a longer session the loop rejects an unparsable
  line, 0, -3, 5 and 150 with their messages, then returns NaN, although the first
  positive value within the bounds, 40, is still to come. NaN is neither positive nor at
  most 100.
\<close>

theorem get_positive_float_nan:
  "get_positive_float (Some 10) (Some 100) [Parsed NaN] = ([], Inr (NaN, []))
   \<and> get_positive_float (Some 10) (Some 100)
        [Unparsable, Parsed (Finite 0), Parsed (Finite (- 3)), Parsed (Finite 5),
         Parsed (Finite 150), Parsed NaN, Parsed (Finite 40)]
      = ([Invalid_input, Please_positive, Please_positive, Please_ge 10, Please_le 100],
         Inr (NaN, [Parsed (Finite 40)]))
   \<and> float_gt NaN 0 = False \<and> float_le NaN 100 = False"
  by simp

end
